theory Spec2Isabelle
  imports Main "HOL-Library.Word"
begin

section \<open>Characters and strings\<close>

text \<open>
  The scripts work on JavaScript strings. They are modelled as \<open>string\<close>; a \<open>char\<close>
  stands for a code unit below 256. The character classes are those of the regular
  expressions of the source: \<^verbatim>\<open>['"]\<close>, \<^verbatim>\<open>\w\<close>, \<^verbatim>\<open>\s\<close> and the case folding of the
  \<^verbatim>\<open>i\<close> flag, which for a pattern of ASCII letters adds the other ASCII case only.
\<close>

definition code :: "char \<Rightarrow> nat" where
  "code c = of_char c"




definition lower :: "char \<Rightarrow> char" where
  "lower c = (if 65 \<le> code c \<and> code c \<le> 90 then char_of (code c + 32) else c)"

section \<open>Regular expressions\<close>

text \<open>
  The regular expressions of the source are written in a small abstract syntax and run
  by a backtracking matcher. \<open>ms r (s, cs)\<close> lists, in the order in which a backtracking
  engine tries them, every way in which \<open>r\<close> matches a prefix of \<open>s\<close>: what is left of
  \<open>s\<close> and the capture groups. Alternatives are tried left to right and quantifiers are
  greedy, so the head of the list is the match that JavaScript reports. An iteration of a
  star that consumes nothing is rejected, as in JavaScript. A back reference to a group
  that did not take part matches the empty string. No pattern of the source has a group
  under a quantifier, so the reset of such groups at each iteration does not arise.
\<close>

datatype re =
    RSym "char \<Rightarrow> bool"
  | REps
  | RSeq re re
  | RAlt re re
  | RStar re
  | RCap nat re
  | RBack nat

type_synonym caps = "nat \<rightharpoonup> string"

fun ms :: "re \<Rightarrow> string \<times> caps \<Rightarrow> (string \<times> caps) list" where
  "ms (RSym p) (s, cs) =
     (case s of [] \<Rightarrow> [] | c # t \<Rightarrow> if p c then [(t, cs)] else [])"
| "ms REps (s, cs) = [(s, cs)]"
| "ms (RSeq a b) (s, cs) = concat (map (ms b) (ms a (s, cs)))"
| "ms (RAlt a b) (s, cs) = ms a (s, cs) @ ms b (s, cs)"
| "ms (RStar a) (s, cs) =
     concat (map (\<lambda>(s', cs'). if length s' < length s then ms (RStar a) (s', cs') else [])
                 (ms a (s, cs))) @ [(s, cs)]"
| "ms (RCap n a) (s, cs) =
     map (\<lambda>(s', cs'). (s', cs'(n \<mapsto> take (length s - length s') s))) (ms a (s, cs))"
| "ms (RBack n) (s, cs) =
     (case cs n of
        None \<Rightarrow> [(s, cs)]
      | Some w \<Rightarrow> if take (length w) s = w then [(drop (length w) s, cs)] else [])"

text \<open>
  Building blocks: a literal, a literal under the \<^verbatim>\<open>i\<close> flag, \<^verbatim>\<open>r+\<close>, \<^verbatim>\<open>r?\<close>, and the
  concatenation and alternation of a list of expressions.
\<close>

definition chr :: "char \<Rightarrow> re" where
  "chr c = RSym (\<lambda>x. x = c)"

definition chr_ci :: "char \<Rightarrow> re" where
  "chr_ci c = RSym (\<lambda>x. lower x = lower c)"

fun seqs :: "re list \<Rightarrow> re" where
  "seqs [] = REps"
| "seqs [r] = r"
| "seqs (r # rs) = RSeq r (seqs rs)"

fun alts :: "re list \<Rightarrow> re" where
  "alts [] = REps"
| "alts [r] = r"
| "alts (r # rs) = RAlt r (alts rs)"

definition lit :: "string \<Rightarrow> re" where
  "lit s = seqs (map chr s)"

definition lit_ci :: "string \<Rightarrow> re" where
  "lit_ci s = seqs (map chr_ci s)"


definition opt :: "re \<Rightarrow> re" where
  "opt r = RAlt r REps"

text \<open>
  \<^verbatim>\<open>regex.test(s)\<close> of a regular expression without the \<^verbatim>\<open>g\<close> flag: is there a match
  starting at some position of \<open>s\<close>.
\<close>

fun test :: "re \<Rightarrow> string \<Rightarrow> bool" where
  "test r [] = (ms r ([], Map.empty) \<noteq> [])"
| "test r (c # t) = (ms r (c # t, Map.empty) \<noteq> [] \<or> test r t)"






section \<open>JavaScript values\<close>

text \<open>
  The values that evaluating or parsing a manifest yields are plain data: an object is the
  list of its own enumerable properties in enumeration order (keys are distinct), an array
  the list of its elements. Numbers are the integers from 0 to \<open>2 ^ 53 - 1\<close>, which
  JavaScript holds exactly and writes in decimal with all their digits; negative numbers,
  fractions, larger numbers (written with an exponent from \<open>10 ^ 21\<close> on) and the members
  that every object inherits (\<^verbatim>\<open>constructor\<close>, \<^verbatim>\<open>toString\<close>, ...) are outside the model.
\<close>

datatype jsval =
    JUndefined
  | JNull
  | JBool bool
  | JNum "53 word"
  | JStr string
  | JArr "jsval list"
  | JObj "(string \<times> jsval) list"

fun truthy :: "jsval \<Rightarrow> bool" where
  "truthy JUndefined = False"
| "truthy JNull = False"
| "truthy (JBool b) = b"
| "truthy (JNum n) = (n \<noteq> 0)"
| "truthy (JStr s) = (s \<noteq> [])"
| "truthy (JArr xs) = True"
| "truthy (JObj kvs) = True"


text \<open>\<^verbatim>\<open>a || b\<close>\<close>

definition js_or :: "jsval \<Rightarrow> jsval \<Rightarrow> jsval" where
  "js_or a b = (if truthy a then a else b)"

fun show_nat :: "nat \<Rightarrow> string" where
  "show_nat n =
     (if n < 10 then [char_of (48 + n)] else show_nat (n div 10) @ [char_of (48 + n mod 10)])"

fun join :: "string \<Rightarrow> string list \<Rightarrow> string" where
  "join sep [] = []"
| "join sep [x] = x"
| "join sep (x # xs) = x @ sep @ join sep xs"

text \<open>The string that a template literal \<^verbatim>\<open>`${v}`\<close> inserts for a value.\<close>

fun to_str :: "jsval \<Rightarrow> string" where
  "to_str JUndefined = ''undefined''"
| "to_str JNull = ''null''"
| "to_str (JBool b) = (if b then ''true'' else ''false'')"
| "to_str (JNum n) = show_nat (unat n)"
| "to_str (JStr s) = s"
| "to_str (JArr xs) = join '','' (map (\<lambda>x. if x = JUndefined \<or> x = JNull then [] else to_str x) xs)"
| "to_str (JObj kvs) = ''[object Object]''"





section \<open>The Node runtime\<close>

text \<open>
  What the Node runtime and its libraries decide is a parameter of the model.
  \<^item> \<open>runInContext hist script\<close> is \<^verbatim>\<open>vm.runInContext(script, sandbox)\<close> in a context in
    which the scripts \<open>hist\<close> were run before: \<open>None\<close> when the script throws, else its value.
  \<^item> \<open>JSON_parse\<close> is \<^verbatim>\<open>JSON.parse\<close> and \<open>yaml_load\<close> is \<^verbatim>\<open>require("js-yaml").load\<close>;
    \<open>None\<close> when they throw.
  \<^item> \<open>path_join\<close> is \<^verbatim>\<open>path.join\<close> and \<open>path_relative\<close> is \<^verbatim>\<open>path.relative\<close>.
  \<^item> \<open>newURL\<close> is \<^verbatim>\<open>new URL(s)\<close> as \<^verbatim>\<open>https.get\<close> takes it: \<open>None\<close> when one of the two
    throws, else the URL that is requested, as a string.
  \<^item> \<open>respond n url\<close> is the list of events that the request number \<open>n\<close> of the run, a GET
    of \<open>url\<close>, receives, in order: the response with its status and \<^verbatim>\<open>Location\<close> header,
    chunks of the body, the end of the body, an \<^verbatim>\<open>error\<close> event of the request, or the
    timeout of 5000 ms.
\<close>

datatype event =
    Response nat "string option"
  | Data string
  | End
  | Error
  | Timeout

record host =
  runInContext :: "string list \<Rightarrow> string \<Rightarrow> jsval option"
  JSON_parse :: "string \<Rightarrow> jsval option"
  yaml_load :: "string \<Rightarrow> jsval option"
  path_join :: "string \<Rightarrow> string \<Rightarrow> string"
  path_relative :: "string \<Rightarrow> string \<Rightarrow> string"
  newURL :: "string \<Rightarrow> string option"
  respond :: "nat \<Rightarrow> string \<Rightarrow> event list"

section \<open>extractDependencies\<close>

text \<open>
  A dependency record. \<open>source\<close> is the strategy that made it: \<^verbatim>\<open>"bender"\<close> (embedded-eval in
  the specification), \<^verbatim>\<open>"package.json"\<close> (structured-json), \<^verbatim>\<open>"yaml"\<close> (structured-yaml) or
  \<^verbatim>\<open>"regex"\<close> (textual-regex). The name is a property key, hence a string; the version and
  the two optional fields are whatever value the manifest has there, \<open>JUndefined\<close> when the
  field is absent.
\<close>

datatype strategy = Bender | PackageJson | Yaml | Regex

record dependency =
  name :: string
  version :: jsval
  pathPrefix :: jsval
  baseUrl :: jsval
  source :: strategy

subsection \<open>1. The manifest as a JavaScript object\<close>







subsection \<open>2. JSON and 3. YAML\<close>






subsection \<open>4. Regular expressions over the text\<close>
















subsection \<open>The function\<close>



section \<open>findManifestFiles\<close>

text \<open>
  \<^verbatim>\<open>DEPENDENCY_PATTERNS\<close>, all with the \<^verbatim>\<open>i\<close> flag: \<^verbatim>\<open>/dependencies?/i\<close>, \<^verbatim>\<open>/bender/i\<close>,
  \<^verbatim>\<open>/manifest/i\<close>, \<^verbatim>\<open>/modules?/i\<close>, \<^verbatim>\<open>/components?/i\<close>, \<^verbatim>\<open>/packages?/i\<close>, \<^verbatim>\<open>/vendor/i\<close>,
  \<^verbatim>\<open>/libs?/i\<close>, \<^verbatim>\<open>/externals?/i\<close>, \<^verbatim>\<open>/include/i\<close>, \<^verbatim>\<open>/require/i\<close>, \<^verbatim>\<open>/imports?/i\<close>.
\<close>

definition DEPENDENCY_PATTERNS :: "re list" where
  "DEPENDENCY_PATTERNS =
     [RSeq (lit_ci ''dependencie'') (opt (chr_ci CHR ''s'')),
      lit_ci ''bender'',
      lit_ci ''manifest'',
      RSeq (lit_ci ''module'') (opt (chr_ci CHR ''s'')),
      RSeq (lit_ci ''component'') (opt (chr_ci CHR ''s'')),
      RSeq (lit_ci ''package'') (opt (chr_ci CHR ''s'')),
      lit_ci ''vendor'',
      RSeq (lit_ci ''lib'') (opt (chr_ci CHR ''s'')),
      RSeq (lit_ci ''external'') (opt (chr_ci CHR ''s'')),
      lit_ci ''include'',
      lit_ci ''require'',
      RSeq (lit_ci ''import'') (opt (chr_ci CHR ''s''))]"

text \<open>\<^verbatim>\<open>/(node_modules|dist|build|\.git|\.cache)/i\<close>\<close>

definition skippedDirectory :: re where
  "skippedDirectory =
     RCap 1 (alts [lit_ci ''node_modules'', lit_ci ''dist'', lit_ci ''build'', lit_ci ''.git'',
                   lit_ci ''.cache''])"

text \<open>\<^verbatim>\<open>/(dependencies|depVersions|require|import)/i\<close>\<close>

definition contentKeywords :: re where
  "contentKeywords =
     RCap 1 (alts [lit_ci ''dependencies'', lit_ci ''depVersions'', lit_ci ''require'',
                   lit_ci ''import''])"

text \<open>
  An entry of a directory: a directory with its entries, a directory that
  \<^verbatim>\<open>readdirSync\<close> cannot read, or anything else, with its name and the text that
  \<^verbatim>\<open>fs.readFileSync(fullPath, "utf8", 0, 1024)\<close> returns (\<open>None\<close> when it throws).
  \<^verbatim>\<open>readFileSync\<close> takes a path and options: the arguments \<^verbatim>\<open>0, 1024\<close> are ignored and the
  text is that of the whole file.
\<close>

datatype entry =
    File string "string option"
  | Dir string "entry list"
  | Unreadable string

fun entry_name :: "entry \<Rightarrow> string" where
  "entry_name (File nm content) = nm"
| "entry_name (Dir nm sub) = nm"
| "entry_name (Unreadable nm) = nm"

datatype reason = Filename | Content

record manifest =
  path :: string
  type :: reason

definition filenameMatch :: "string \<Rightarrow> bool" where
  "filenameMatch nm = list_ex (\<lambda>p. test p nm) DEPENDENCY_PATTERNS"

definition contentMatch :: "string option \<Rightarrow> bool" where
  "contentMatch file =
     (case file of
        None \<Rightarrow> False
      | Some content \<Rightarrow>
          list_ex (\<lambda>p. test p content) DEPENDENCY_PATTERNS \<or> test contentKeywords content)"

text \<open>The branch of the loop for an entry that is not a directory: the manifest pushed, if any.\<close>

definition classify :: "string \<Rightarrow> string \<Rightarrow> string option \<Rightarrow> manifest option" where
  "classify fullPath nm file =
     (if filenameMatch nm \<or> contentMatch file
      then Some \<lparr>path = fullPath, type = (if filenameMatch nm then Filename else Content)\<rparr>
      else None)"

record scan =
  manifests :: "manifest list"
  scannedFiles :: "string set"

text \<open>
  \<open>scanDirectory h dir currentDir entries st\<close> is the loop of \<^verbatim>\<open>scanDirectory(currentDir)\<close>
  over the entries that \<^verbatim>\<open>readdirSync\<close> returned; \<open>None\<close> when \<^verbatim>\<open>readdirSync\<close> throws in a
  directory below, which nothing in \<^verbatim>\<open>findManifestFiles\<close> catches.
\<close>

fun scanDirectory :: "host \<Rightarrow> string \<Rightarrow> string \<Rightarrow> entry list \<Rightarrow> scan \<Rightarrow> scan option" where
  "scanDirectory h dir currentDir [] st = Some st"
| "scanDirectory h dir currentDir (e # es) st =
     (let fullPath = path_join h currentDir (entry_name e);
          relativePath = path_relative h dir fullPath
      in if relativePath \<in> scannedFiles st then scanDirectory h dir currentDir es st
         else
           (let st1 = st\<lparr>scannedFiles := insert relativePath (scannedFiles st)\<rparr> in
            case e of
              Dir nm sub \<Rightarrow>
                if test skippedDirectory nm then scanDirectory h dir currentDir es st1
                else (case scanDirectory h dir fullPath sub st1 of
                        None \<Rightarrow> None
                      | Some st2 \<Rightarrow> scanDirectory h dir currentDir es st2)
            | Unreadable nm \<Rightarrow>
                if test skippedDirectory nm then scanDirectory h dir currentDir es st1 else None
            | File nm file \<Rightarrow>
                (case classify fullPath nm file of
                   None \<Rightarrow> scanDirectory h dir currentDir es st1
                 | Some m \<Rightarrow>
                     scanDirectory h dir currentDir es (st1\<lparr>manifests := manifests st1 @ [m]\<rparr>))))"

definition findManifestFiles :: "host \<Rightarrow> string \<Rightarrow> entry list \<Rightarrow> manifest list option" where
  "findManifestFiles h dir es =
     map_option manifests (scanDirectory h dir dir es \<lparr>manifests = [], scannedFiles = {}\<rparr>)"

section \<open>downloadDependency\<close>

subsection \<open>The output file and the URLs\<close>

text \<open>
  \<^verbatim>\<open>`${dep.name.replace(/\//g, "_")}@${dep.version}.js`\<close>; \<open>safeName\<close> is the replacement of
  every slash by an underscore.
\<close>

definition safeName :: "string \<Rightarrow> string" where
  "safeName nm = map (\<lambda>c. if c = CHR ''/'' then CHR ''_'' else c) nm"

definition filename :: "dependency \<Rightarrow> string" where
  "filename dep = safeName (name dep) @ ''@'' @ to_str (version dep) @ ''.js''"

definition vendorUrl :: "dependency \<Rightarrow> string" where
  "vendorUrl dep =
     to_str (baseUrl dep) @ to_str (pathPrefix dep) @ ''/bundles/'' @ name dep @ ''.js''"

definition cdnBase :: "dependency \<Rightarrow> string" where
  "cdnBase dep = to_str (js_or (baseUrl dep) (JStr ''https://cdn.example.com''))"

definition cdnPatterns :: "dependency \<Rightarrow> string list" where
  "cdnPatterns dep =
     [cdnBase dep @ ''/'' @ name dep @ ''@'' @ to_str (version dep) @ ''/dist/'' @ name dep @ ''.js'',
      cdnBase dep @ ''/'' @ name dep @ ''@'' @ to_str (version dep) @ ''/'' @ name dep @ ''.js'',
      cdnBase dep @ ''/'' @ to_str (js_or (pathPrefix dep) (JStr (name dep))) @ ''/'' @ name dep @
        ''.js'']"

definition publicCdns :: "dependency \<Rightarrow> string list" where
  "publicCdns dep =
     [''https://unpkg.com/'' @ name dep @ ''@'' @ to_str (version dep),
      ''https://cdn.jsdelivr.net/npm/'' @ name dep @ ''@'' @ to_str (version dep),
      ''https://bundle.run/'' @ name dep @ ''@'' @ to_str (version dep)]"

definition urls :: "dependency \<Rightarrow> string list" where
  "urls dep =
     cdnPatterns dep @
     map (\<lambda>url. url @ ''/dist/'' @ name dep @ ''.min.js'') (publicCdns dep) @
     map (\<lambda>url. url @ ''/dist/'' @ name dep @ ''.js'') (publicCdns dep) @
     map (\<lambda>url. url @ ''/'' @ name dep @ ''.js'') (publicCdns dep) @
     map (\<lambda>url. url @ ''/bundle.js'') (publicCdns dep)"

subsection \<open>tryDownload\<close>

text \<open>
  \<^verbatim>\<open>url.replace(/([^:])\/\//g, "$1/")\<close>: scanning from the left, a character other than a
  colon followed by two slashes keeps one of the slashes, and the scan goes on behind the
  three characters. \<^verbatim>\<open>.replace(":/", "://")\<close> rewrites the first \<^verbatim>\<open>:/\<close> only, so that
  \<^verbatim>\<open>https://host/x\<close> becomes \<^verbatim>\<open>https:///host/x\<close>, which \<^verbatim>\<open>new URL\<close> reads as the same URL.
\<close>

fun collapseSlashes :: "string \<Rightarrow> string" where
  "collapseSlashes (x # y # z # rest) =
     (if x \<noteq> CHR '':'' \<and> y = CHR ''/'' \<and> z = CHR ''/''
      then x # CHR ''/'' # collapseSlashes rest
      else x # collapseSlashes (y # z # rest))"
| "collapseSlashes s = s"

fun fixScheme :: "string \<Rightarrow> string" where
  "fixScheme (x # y # rest) =
     (if x = CHR '':'' \<and> y = CHR ''/'' then '':/'' @ CHR ''/'' # rest
      else x # fixScheme (y # rest))"
| "fixScheme s = s"

definition cleanedUrl :: "string \<Rightarrow> string" where
  "cleanedUrl url = fixScheme (collapseSlashes url)"

text \<open>\<^verbatim>\<open>cleanedUrl.startsWith("//") ? `https:${cleanedUrl}` : cleanedUrl\<close>, the argument of \<^verbatim>\<open>new URL\<close>.\<close>

definition absoluteUrl :: "string \<Rightarrow> string" where
  "absoluteUrl url =
     (if take 2 (cleanedUrl url) = ''//'' then ''https:'' @ cleanedUrl url else cleanedUrl url)"

text \<open>\<^verbatim>\<open>/(function|var|const|let|=>|class)/\<close>\<close>

definition scriptContent :: re where
  "scriptContent =
     RCap 1 (alts [lit ''function'', lit ''var'', lit ''const'', lit ''let'', lit ''=>'',
                   lit ''class''])"

text \<open>
  The state of a run: the files on disk, by path, the URLs requested so far, and the calls
  \<^verbatim>\<open>tryDownload(location, outputPath)\<close> that a redirect started and that were still running
  when their caller's promise was resolved by the caller's own timer or error handler
  (\<open>background\<close>). Such a call goes on beside the rest of the run; its requests and its
  writes are not part of the model. A request receives a list of events in order; the
  handlers of \<open>tryDownload\<close> run on them until the promise is settled.

  \<open>piped\<close> is the part after \<^verbatim>\<open>res.pipe(file)\<close>: a chunk is appended to the file; at the end
  of the body the \<^verbatim>\<open>finish\<close> handler reads the file (\<^verbatim>\<open>readFileSync(outputPath, "utf8", 0,
  100)\<close> returns the whole text, since the last two arguments are ignored), tests it and
  either resolves true or unlinks the file and resolves false; the \<^verbatim>\<open>error\<close> and timeout
  handlers resolve false. \<open>None\<close>: the promise is not settled.
\<close>

record world =
  files :: "string \<rightharpoonup> string"
  requests :: "string list"
  background :: "(string \<times> string) list"

fun piped :: "event list \<Rightarrow> string \<Rightarrow> (string \<rightharpoonup> string) \<Rightarrow> bool option \<times> (string \<rightharpoonup> string)" where
  "piped [] out fs = (None, fs)"
| "piped (Data chunk # es) out fs =
     piped es out (fs(out \<mapsto> (case fs out of None \<Rightarrow> chunk | Some written \<Rightarrow> written @ chunk)))"
| "piped (End # es) out fs =
     (case fs out of
        None \<Rightarrow> (None, fs)
      | Some content \<Rightarrow>
          if test scriptContent content then (Some True, fs) else (Some False, fs(out := None)))"
| "piped (Error # es) out fs = (Some False, fs)"
| "piped (Timeout # es) out fs = (Some False, fs)"
| "piped (Response status location # es) out fs = piped es out fs"

text \<open>
  The handlers from the start of a request. A response with a redirect status and a
  non-empty \<^verbatim>\<open>Location\<close> calls \<open>tryDownload\<close> of the location and resolves the promise with
  its value; the request itself is neither destroyed nor read, so its timer stays armed
  and its \<^verbatim>\<open>error\<close> handler attached. The events listed after such a response are those that
  reach the request before the promise of the inner call is settled (a later one finds
  the promise settled and changes nothing): when the timeout or an \<^verbatim>\<open>error\<close> event is among
  them, its handler resolves the promise false while the inner call is still running
  (\<open>Overtaken\<close>); otherwise the promise is left to the inner call (\<open>Redirected\<close>). Any other
  status but 200 resolves false; on 200 \<^verbatim>\<open>fs.createWriteStream(outputPath)\<close> creates or
  empties the file and the body is piped into it.
\<close>

datatype settled = Resolved bool | Redirected string | Overtaken string | Pending

fun answered :: "event list \<Rightarrow> string \<Rightarrow> (string \<rightharpoonup> string) \<Rightarrow> settled \<times> (string \<rightharpoonup> string)" where
  "answered [] out fs = (Pending, fs)"
| "answered (Response status location # es) out fs =
     (if status \<in> {301, 302, 307, 308} \<and> location \<noteq> None \<and> location \<noteq> Some []
      then (if list_ex (\<lambda>e. e = Timeout \<or> e = Error) es
            then (Overtaken (case location of Some l \<Rightarrow> l | None \<Rightarrow> []), fs)
            else (Redirected (case location of Some l \<Rightarrow> l | None \<Rightarrow> []), fs))
      else if status \<noteq> 200 then (Resolved False, fs)
      else (case piped es out (fs(out \<mapsto> [])) of
              (None, fs') \<Rightarrow> (Pending, fs')
            | (Some b, fs') \<Rightarrow> (Resolved b, fs')))"
| "answered (Error # es) out fs = (Resolved False, fs)"
| "answered (Timeout # es) out fs = (Resolved False, fs)"
| "answered (Data chunk # es) out fs = answered es out fs"
| "answered (End # es) out fs = answered es out fs"

text \<open>
  \<open>tryDownload h url outputPath w\<close>: \<open>None\<close> when the promise is never settled, \<open>Inl\<close> when
  it is rejected (\<^verbatim>\<open>new URL\<close> throws in the executor), \<open>Inr b\<close> when it is resolved with
  \<open>b\<close>. After a redirect the promise is resolved by \<^verbatim>\<open>tryDownload(location).then(resolve)\<close>
  with the value of the inner promise, unless the timer or the \<^verbatim>\<open>error\<close> handler of the
  redirected request resolves it false first; then the inner call is left running and is
  put down in \<open>background\<close>. When the inner promise is rejected, \<^verbatim>\<open>.then(resolve)\<close> gives a
  rejected promise that nothing handles, which ends the process: the result is \<open>None\<close>.
\<close>

partial_function (option) tryDownload ::
  "host \<Rightarrow> string \<Rightarrow> string \<Rightarrow> world \<Rightarrow> ((string + bool) \<times> world) option" where
  "tryDownload h url outputPath w =
     (case newURL h (absoluteUrl url) of
        None \<Rightarrow> Some (Inl ''Invalid URL'', w)
      | Some parsedUrl \<Rightarrow>
          (case answered (respond h (length (requests w)) parsedUrl) outputPath (files w) of
             (Redirected location, fs) \<Rightarrow>
               Option.bind
                 (tryDownload h location outputPath
                    (w\<lparr>files := fs, requests := requests w @ [parsedUrl]\<rparr>))
                 (\<lambda>(r, w'). case r of Inl e \<Rightarrow> None | Inr b \<Rightarrow> Some (Inr b, w'))
           | (Overtaken location, fs) \<Rightarrow>
               (case newURL h (absoluteUrl location) of
                  None \<Rightarrow> None
                | Some innerUrl \<Rightarrow>
                    Some (Inr False,
                          w\<lparr>files := fs, requests := requests w @ [parsedUrl],
                            background := background w @ [(location, outputPath)]\<rparr>))
           | (Resolved b, fs) \<Rightarrow>
               Some (Inr b, w\<lparr>files := fs, requests := requests w @ [parsedUrl]\<rparr>)
           | (Pending, fs) \<Rightarrow> None))"

declare tryDownload.simps [code]

subsection \<open>The loop over the URLs\<close>

text \<open>
  \<^verbatim>\<open>for (const url of urls) { if (await tryDownload(url, outputPath)) return true }\<close>
  followed by \<^verbatim>\<open>throw new Error("No valid download URL found")\<close>. Awaiting a rejected
  promise throws out of the loop.
\<close>

fun tryEach :: "host \<Rightarrow> string list \<Rightarrow> string \<Rightarrow> world \<Rightarrow> ((string + bool) \<times> world) option" where
  "tryEach h [] outputPath w = Some (Inl ''No valid download URL found'', w)"
| "tryEach h (url # rest) outputPath w =
     (case tryDownload h url outputPath w of
        None \<Rightarrow> None
      | Some (Inl e, w') \<Rightarrow> Some (Inl e, w')
      | Some (Inr b, w') \<Rightarrow> if b then Some (Inr True, w') else tryEach h rest outputPath w')"

definition outputPath :: "host \<Rightarrow> string \<Rightarrow> dependency \<Rightarrow> string" where
  "outputPath h outputDir dep = path_join h outputDir (filename dep)"

definition downloadDependency ::
  "host \<Rightarrow> dependency \<Rightarrow> string \<Rightarrow> world \<Rightarrow> ((string + bool) \<times> world) option" where
  "downloadDependency h dep outputDir w =
     (if source dep = Bender \<and> truthy (baseUrl dep) \<and> truthy (pathPrefix dep)
      then tryDownload h (vendorUrl dep) (outputPath h outputDir dep) w
      else tryEach h (urls dep) (outputPath h outputDir dep) w)"

section \<open>Runtimes and inputs of the examples\<close>

text \<open>
  A runtime in which every script and every parser throws, a path is joined with a slash
  (as \<^verbatim>\<open>path.join\<close> does for a normalized directory and a file name), every string is a
  URL, with \<^verbatim>\<open>https:///host\<close> read as \<^verbatim>\<open>https://host\<close>, and no request is answered. The
  examples change the fields they need.
\<close>

definition quiet :: host where
  "quiet =
     \<lparr>runInContext = (\<lambda>hist script. None),
      JSON_parse = (\<lambda>text. None),
      yaml_load = (\<lambda>text. None),
      path_join = (\<lambda>a b. a @ ''/'' @ b),
      path_relative = (\<lambda>a b. drop (Suc (length a)) b),
      newURL = (\<lambda>s. Some (if take 9 s = ''https:///'' then ''https://'' @ drop 9 s else s)),
      respond = (\<lambda>n url. [])\<rparr>"













text \<open>The state before the first request, and the output path of a dependency in the examples.\<close>

definition start :: world where
  "start = \<lparr>files = Map.empty, requests = [], background = []\<rparr>"

definition onDisk :: "dependency \<Rightarrow> string" where
  "onDisk dep = outputPath quiet ''external-dependencies'' dep"

definition leftPad :: dependency where
  "leftPad = \<lparr>name = ''left-pad'', version = JStr ''1.3.0'', pathPrefix = JUndefined,
              baseUrl = JUndefined, source = PackageJson\<rparr>"

text \<open>
  A record of the embedded strategy with both fields, and a CDN that has no file at its
  vendor URL while every other URL serves a script.
\<close>

definition vendorDep :: dependency where
  "vendorDep = \<lparr>name = ''react'', version = JStr ''1.0'', pathPrefix = JStr ''/react/static-1.0'',
                baseUrl = JStr ''https://static.example.net'', source = Bender\<rparr>"

definition vendorHost :: host where
  "vendorHost =
     quiet\<lparr>respond := (\<lambda>n url.
        if url = ''https://static.example.net/react/static-1.0/bundles/react.js''
        then [Response 404 None]
        else [Response 200 None, Data ''var React = 1;'', End])\<rparr>"

text \<open>
  A server that answers the first request with status 200, sends the start of an error
  page and then nothing for five seconds; every later request gets status 404.
\<close>

definition stallHost :: host where
  "stallHost =
     quiet\<lparr>respond := (\<lambda>n url.
        if n = 0 then [Response 200 None, Data ''<html'', Timeout] else [Response 404 None])\<rparr>"





text \<open>A file of 1030 bytes whose first 1024 bytes are the letter x.\<close>

definition bigFile :: string where
  "bigFile = replicate 1024 CHR ''x'' @ ''import''"

section \<open>The order of the strategies as the specification states it\<close>



section \<open>Notions used in the proofs\<close>



definition needs :: "(char \<Rightarrow> bool) \<Rightarrow> re \<Rightarrow> bool" where
  "needs p r = (\<forall>s cs. ms r (s, cs) \<noteq> [] \<longrightarrow> (\<exists>c\<in>set s. p c))"


section \<open>The matcher\<close>

declare ms.simps(5) [simp del]


lemma ms_seq_cases:
  assumes "(s', cs') \<in> set (ms (RSeq a b) (s, cs))"
  obtains s1 cs1 where "(s1, cs1) \<in> set (ms a (s, cs))" "(s', cs') \<in> set (ms b (s1, cs1))"
  using assms by auto




lemma ms_sym: "(s', cs') \<in> set (ms (RSym p) (s, cs)) \<Longrightarrow> \<exists>c. s = c # s' \<and> p c \<and> cs' = cs"
  by (auto split: list.splits if_splits)



lemma ms_nonempty:
  assumes "ms r (s, cs) \<noteq> []"
  obtains s' cs' where "(s', cs') \<in> set (ms r (s, cs))"
proof -
  from assms obtain x xs where "ms r (s, cs) = x # xs" by (cases "ms r (s, cs)") auto
  then have "(fst x, snd x) \<in> set (ms r (s, cs))" by simp
  then show thesis by (rule that)
qed

lemma needs_sym:
  assumes "\<And>c. q c \<Longrightarrow> p c"
  shows "needs p (RSym q)"
  unfolding needs_def
proof (intro allI impI)
  fix s cs
  assume "ms (RSym q) (s, cs) \<noteq> []"
  then obtain s' cs' where "(s', cs') \<in> set (ms (RSym q) (s, cs))" by (rule ms_nonempty)
  from ms_sym[OF this] obtain c where "s = c # s'" "q c" by blast
  with assms show "\<exists>c\<in>set s. p c" by auto
qed

lemma needs_seq1:
  assumes "needs p a"
  shows "needs p (RSeq a b)"
  unfolding needs_def
proof (intro allI impI)
  fix s cs
  assume "ms (RSeq a b) (s, cs) \<noteq> []"
  then obtain s' cs' where "(s', cs') \<in> set (ms (RSeq a b) (s, cs))" by (rule ms_nonempty)
  then obtain s1 cs1 where m1: "(s1, cs1) \<in> set (ms a (s, cs))"
    and m2: "(s', cs') \<in> set (ms b (s1, cs1))" by (rule ms_seq_cases)
  from m1 have "ms a (s, cs) \<noteq> []" by auto
  with assms show "\<exists>c\<in>set s. p c" unfolding needs_def by blast
qed



lemma needsD: "needs p r \<Longrightarrow> ms r (s, cs) \<noteq> [] \<Longrightarrow> \<exists>c\<in>set s. p c"
  unfolding needs_def by (erule allE[of _ s], erule allE[of _ cs], erule mp)
















section \<open>The order of the two checks of the scanner\<close>

text \<open>
  C10. A file that is scanned, whose name matches one of \<open>DEPENDENCY_PATTERNS\<close> and whose
  content matches the content check as well, is pushed with the type \<open>Filename\<close>: the
  step of the loop for such a file adds exactly that manifest.
\<close>

theorem filename_reason_first:
  assumes "path_relative h dir (path_join h currentDir nm) \<notin> scannedFiles st"
    and "filenameMatch nm"
    and "contentMatch (Some content)"
  shows "scanDirectory h dir currentDir (File nm (Some content) # es) st =
         scanDirectory h dir currentDir es
           (st\<lparr>scannedFiles :=
                 insert (path_relative h dir (path_join h currentDir nm)) (scannedFiles st),
               manifests :=
                 manifests st @ [\<lparr>path = path_join h currentDir nm, type = Filename\<rparr>]\<rparr>)"
  using assms by (simp add: classify_def Let_def)

theorem filename_reason_first_witness:
  "findManifestFiles quiet ''/srv/app'' [File ''package.json'' (Some ''import x'')] =
   Some [\<lparr>path = ''/srv/app/package.json'', type = Filename\<rparr>]"
proof -
  have a: "filenameMatch ''package.json''" by code_simp
  have b: "contentMatch (Some ''import x'')" by code_simp
  have c: "path_relative quiet ''/srv/app'' (path_join quiet ''/srv/app'' ''package.json'')
             \<notin> scannedFiles \<lparr>manifests = [], scannedFiles = {}\<rparr>" by simp
  show ?thesis
    unfolding findManifestFiles_def
    using filename_reason_first [OF c a b, of "[]"] by (simp add: quiet_def)
qed

section \<open>The content check of the scanner\<close>

lemma needs_alt: "needs p a \<Longrightarrow> needs p b \<Longrightarrow> needs p (RAlt a b)"
  unfolding needs_def by auto

lemma needs_cap: "needs p a \<Longrightarrow> needs p (RCap n a)"
  unfolding needs_def by auto

lemma needs_chr_ci: "lower k \<noteq> lower x \<Longrightarrow> needs (\<lambda>c. c \<noteq> x) (chr_ci k)"
  unfolding chr_ci_def by (rule needs_sym) auto

lemma test_needs: "needs q r \<Longrightarrow> test r s \<Longrightarrow> \<exists>c\<in>set s. q c"
proof (induction s)
  case Nil
  then show ?case using needsD[of q r "[]" Map.empty] by simp
next
  case (Cons c t)
  show ?case
  proof (cases "ms r (c # t, Map.empty) = []")
    case True
    with Cons show ?thesis by simp
  next
    case False
    from needsD[OF Cons.prems(1) False] show ?thesis .
  qed
qed

lemma test_append: "test r ys \<Longrightarrow> test r (xs @ ys)"
  by (induction xs) (cases ys, simp_all)

lemma patterns_need_other:
  "list_all (needs (\<lambda>c. c \<noteq> CHR ''x'')) (contentKeywords # DEPENDENCY_PATTERNS)"
  unfolding DEPENDENCY_PATTERNS_def contentKeywords_def
  apply (simp add: lit_ci_def)
  apply (intro conjI needs_cap needs_alt needs_seq1 needs_chr_ci)
  apply code_simp+
  done

lemma no_match_in_xs: "\<not> contentMatch (Some (replicate n CHR ''x''))"
proof
  assume "contentMatch (Some (replicate n CHR ''x''))"
  then obtain p where p: "p \<in> set (contentKeywords # DEPENDENCY_PATTERNS)"
    and t: "test p (replicate n CHR ''x'')"
    unfolding contentMatch_def by (auto simp: list_ex_iff)
  from patterns_need_other p have "needs (\<lambda>c. c \<noteq> CHR ''x'') p"
    unfolding list_all_iff by blast
  from test_needs[OF this t] show False by simp
qed

lemma bigFile_matches: "contentMatch (Some bigFile)"
proof -
  have "test contentKeywords ''import''" by code_simp
  then have "test contentKeywords bigFile" unfolding bigFile_def by (rule test_append)
  then show ?thesis by (simp add: contentMatch_def)
qed

lemma bigFile_prefix: "take 1024 bigFile = replicate 1024 CHR ''x''"
  by (simp add: bigFile_def)

text \<open>
  C6. The code does not do what the claim, and the comment \<^verbatim>\<open>// Check by content (first
  1KB)\<close> of the source, say: the content check runs on the whole text of the file. A file
  named \<^verbatim>\<open>a.txt\<close> whose first 1024 bytes match nothing and whose bytes after them spell
  \<^verbatim>\<open>import\<close> is a candidate; the file with the same first 1024 bytes and no more is not.
\<close>

theorem content_beyond_1KB_decides:
  "take 1024 bigFile = replicate 1024 CHR ''x'' \<and>
   findManifestFiles quiet ''/srv/app'' [File ''a.txt'' (Some bigFile)] =
     Some [\<lparr>path = ''/srv/app/a.txt'', type = Content\<rparr>] \<and>
   findManifestFiles quiet ''/srv/app'' [File ''a.txt'' (Some (take 1024 bigFile))] = Some []"
proof -
  have n: "\<not> filenameMatch ''a.txt''" by code_simp
  have a: "findManifestFiles quiet ''/srv/app'' [File ''a.txt'' (Some bigFile)] =
     Some [\<lparr>path = ''/srv/app/a.txt'', type = Content\<rparr>]"
    using n bigFile_matches
    by (simp add: findManifestFiles_def classify_def quiet_def Let_def)
  have b: "findManifestFiles quiet ''/srv/app'' [File ''a.txt'' (Some (take 1024 bigFile))] = Some []"
    using n no_match_in_xs[of 1024]
    by (simp add: bigFile_prefix findManifestFiles_def classify_def quiet_def Let_def)
  from bigFile_prefix a b show ?thesis by simp
qed

section \<open>The strategies of extractDependencies\<close>























section \<open>downloadDependency and tryDownload\<close>











text \<open>
  A version with \<^verbatim>\<open>@\<close> gives one file name to two records as well: \<^verbatim>\<open>a@b\<close> at the version
  \<^verbatim>\<open>c\<close> and \<^verbatim>\<open>a\<close> at the version \<^verbatim>\<open>b@c\<close>.
\<close>

lemma version_with_at_sign:
  "filename \<lparr>name = ''a@b'', version = JStr ''c'', pathPrefix = JUndefined,
             baseUrl = JUndefined, source = PackageJson\<rparr> =
   filename \<lparr>name = ''a'', version = JStr ''b@c'', pathPrefix = JUndefined,
             baseUrl = JUndefined, source = PackageJson\<rparr>"
  by code_simp



text \<open>
  C2. The code does not do what the claim says: for a record of the embedded strategy with
  both fields, \<open>downloadDependency\<close> returns what \<open>tryDownload\<close> of the vendor URL gives. Here
  the vendor URL answers 404 and each of the fifteen other URLs would serve a script: one
  request is made and the result is false.
\<close>

theorem vendor_url_only:
  "map_option (\<lambda>(r, w). (r, requests w))
     (downloadDependency vendorHost vendorDep ''external-dependencies'' start) =
   Some (Inr False, [''https://static.example.net/react/static-1.0/bundles/react.js''])"
  by code_simp

text \<open>
  C8. The code does not do what the claim says when the timeout comes after the response:
  the file that \<^verbatim>\<open>createWriteStream\<close> made holds the part of the body that arrived, the
  timeout handler resolves false without unlinking it, and the loop goes on to the other
  URLs. Here all fifteen URLs are tried and the partial file is still there at the end.
\<close>

theorem partial_file_remains:
  "map_option (\<lambda>(r, w). (r, length (requests w), files w (onDisk leftPad)))
     (downloadDependency stallHost leftPad ''external-dependencies'' start) =
   Some (Inl ''No valid download URL found'', 15, Some ''<html'')"
  by code_simp

end
